theory Spec2Isabelle
  imports Complex_Main
begin

section \<open>NumPy values and arrays\<close>

text \<open>
  A NumPy \<open>float64\<close> is either a finite number or one of the three special values.
  Finite values are idealised as real numbers: rounding, overflow and the sign of zero are
  not modelled. Division of a finite nonzero value by zero yields an infinity and only a
  warning, as NumPy does with its default error settings.
\<close>

datatype npfloat = Fin real | PInf | NInf | NaN

fun is_Fin :: "npfloat \<Rightarrow> bool" where
  "is_Fin (Fin r) = True"
| "is_Fin x = False"

fun fin_val :: "npfloat \<Rightarrow> real" where
  "fin_val (Fin r) = r"
| "fin_val x = 0"

fun np_mul :: "npfloat \<Rightarrow> npfloat \<Rightarrow> npfloat" where
  "np_mul NaN y = NaN"
| "np_mul x NaN = NaN"
| "np_mul (Fin a) (Fin b) = Fin (a * b)"
| "np_mul (Fin a) PInf = (if a = 0 then NaN else if 0 < a then PInf else NInf)"
| "np_mul (Fin a) NInf = (if a = 0 then NaN else if 0 < a then NInf else PInf)"
| "np_mul PInf (Fin b) = (if b = 0 then NaN else if 0 < b then PInf else NInf)"
| "np_mul NInf (Fin b) = (if b = 0 then NaN else if 0 < b then NInf else PInf)"
| "np_mul PInf PInf = PInf"
| "np_mul PInf NInf = NInf"
| "np_mul NInf PInf = NInf"
| "np_mul NInf NInf = PInf"

fun np_div :: "npfloat \<Rightarrow> npfloat \<Rightarrow> npfloat" where
  "np_div NaN y = NaN"
| "np_div x NaN = NaN"
| "np_div (Fin a) (Fin b) =
     (if b = 0 then (if a = 0 then NaN else if 0 < a then PInf else NInf)
      else Fin (a / b))"
| "np_div (Fin a) PInf = Fin 0"
| "np_div (Fin a) NInf = Fin 0"
| "np_div PInf (Fin b) = (if 0 \<le> b then PInf else NInf)"
| "np_div NInf (Fin b) = (if 0 \<le> b then NInf else PInf)"
| "np_div PInf PInf = NaN"
| "np_div PInf NInf = NaN"
| "np_div NInf PInf = NaN"
| "np_div NInf NInf = NaN"

text \<open>A two-dimensional array carries its shape, so that a shape with a zero axis is kept.\<close>

record 'a ndarray2 =
  shape0 :: nat
  shape1 :: nat
  cells :: "'a list list"


definition np_full :: "nat \<Rightarrow> nat \<Rightarrow> 'a \<Rightarrow> 'a ndarray2" where
  "np_full n m v = \<lparr>shape0 = n, shape1 = m, cells = replicate n (replicate m v)\<rparr>"

definition np_map2d :: "('a \<Rightarrow> 'b) \<Rightarrow> 'a ndarray2 \<Rightarrow> 'b ndarray2" where
  "np_map2d f A = \<lparr>shape0 = shape0 A, shape1 = shape1 A, cells = map (map f) (cells A)\<rparr>"

definition np_mean :: "real list \<Rightarrow> real" where
  "np_mean xs = sum_list xs / real (length xs)"

text \<open>
  \<open>np.std\<close> of one row: the square root of the mean of the squared deviations from the
  mean. The mean of an empty row is NaN, and one non-finite entry makes a deviation NaN.
\<close>

definition np_std :: "npfloat list \<Rightarrow> npfloat" where
  "np_std xs =
     (if xs = [] \<or> \<not> list_all is_Fin xs then NaN
      else let rs = map fin_val xs; m = np_mean rs
           in Fin (sqrt (np_mean (map (\<lambda>x. (x - m) * (x - m)) rs))))"

text \<open>\<open>np.std(X, axis=1)\<close>: one value per row.\<close>

definition np_std_axis1 :: "npfloat ndarray2 \<Rightarrow> npfloat list" where
  "np_std_axis1 X = map np_std (cells X)"

text \<open>
  \<open>np.tile(col, reps)\<close> for a column \<open>col\<close> of shape \<open>(n, 1)\<close> and an integer
  \<open>reps\<close>: the single entry of each row is repeated \<open>reps\<close> times along the last axis.
\<close>

definition np_tile_column :: "'a list \<Rightarrow> nat \<Rightarrow> 'a ndarray2" where
  "np_tile_column col reps =
     \<lparr>shape0 = length col, shape1 = reps, cells = map (\<lambda>v. replicate reps v) col\<rparr>"

section \<open>The MCEM outer loop: \<open>learn_d_z_weighted\<close>\<close>

type_synonym dictionary = "npfloat list list"
type_synonym activations = "npfloat list list list"

text \<open>
  The exceptions of the model: the two NumPy raises on a bad shape or index, a failed
  \<open>assert\<close>, the read of an unbound local variable, and whatever a function of another
  module raises.
\<close>

datatype error =
  ValueError | IndexError | AssertionError | UnboundLocalError string | CollaboratorError string

text \<open>The arguments of \<open>learn_d_z_weighted\<close> other than \<open>X\<close>.\<close>

record ('f, 'k, 'c, 's) arguments =
  n_atoms :: int
  n_times_atom :: int
  func_d :: 'f
  reg :: real
  alpha :: real
  n_iter_global :: int
  init_tau :: bool
  n_iter_optim :: int
  n_iter_mcmc :: int
  n_burnin_mcmc :: int
  random_state :: 's
  n_jobs :: int
  solver_z :: string
  solver_d_kwargs :: 'k
  solver_z_kwargs :: 'k
  ds_init :: "dictionary option"
  verbose :: int
  callback :: 'c

text \<open>The arguments of one call of \<open>learn_d_z\<close>, as the loop body passes them.\<close>

record ('f, 'k, 'c, 'r) learn_call =
  lc_X :: "npfloat ndarray2"
  lc_n_atoms :: int
  lc_n_times_atom :: int
  lc_func_d :: 'f
  lc_reg :: real
  lc_n_iter :: int
  lc_random_state :: 'r
  lc_sample_weights :: "npfloat ndarray2"
  lc_ds_init :: "dictionary option"
  lc_solver_d_kwargs :: 'k
  lc_solver_z_kwargs :: 'k
  lc_verbose :: int
  lc_solver_z :: string
  lc_n_jobs :: int
  lc_callback :: 'c

text \<open>The arguments of one call of \<open>estimate_phi_mh\<close>.\<close>

record 'r estimate_call =
  ec_X :: "npfloat ndarray2"
  ec_X_hat :: "npfloat ndarray2"
  ec_alpha :: real
  ec_phi :: "npfloat ndarray2"
  ec_n_iter_mcmc :: int
  ec_n_burnin_mcmc :: int
  ec_random_state :: 'r
  ec_return_loglk :: bool
  ec_verbose :: int

text \<open>
  The functions \<open>learn_d_z_weighted\<close> imports from other modules are parameters of the
  model. Each may raise; the two that draw random numbers return the generator's new state,
  since the source passes one generator object to both.
\<close>

record ('f, 'k, 'c, 's, 'r) collaborators =
  check_random_state :: "'s \<Rightarrow> error + 'r"
  learn_d_z :: "('f, 'k, 'c, 'r) learn_call \<Rightarrow>
     error + ((real list \<times> real list \<times> dictionary \<times> activations) \<times> 'r)"
  construct_X :: "activations \<Rightarrow> dictionary \<Rightarrow> error + npfloat ndarray2"
  estimate_phi_mh :: "'r estimate_call \<Rightarrow>
     error + ((npfloat ndarray2 \<times> npfloat ndarray2 \<times> real list) \<times> 'r)"

text \<open>The local variables of the loop; \<open>z_hat\<close> is unbound until the first iteration.\<close>

record 'r locals =
  d_hat :: "dictionary option"
  z_hat :: "activations option"
  phi :: "npfloat ndarray2"
  tau :: "npfloat ndarray2"
  rng :: 'r

text \<open>The calls made to \<open>learn_d_z\<close> and \<open>estimate_phi_mh\<close>, in order.\<close>

datatype ('f, 'k, 'c, 'r) event =
  Maximization "('f, 'k, 'c, 'r) learn_call"
| Expectation "'r estimate_call"

text \<open>Lines 77 to 83: the two initialisations of \<open>phi\<close> and \<open>tau\<close>.\<close>

definition init_phi :: "bool \<Rightarrow> npfloat ndarray2 \<Rightarrow> npfloat ndarray2" where
  "init_phi heuristic X =
     (if heuristic
      then np_tile_column (map (\<lambda>s. np_mul s s) (np_std_axis1 X)) (shape1 X)
      else np_full (shape0 X) (shape1 X) (Fin 2))"

definition init_tau_of :: "bool \<Rightarrow> npfloat ndarray2 \<Rightarrow> npfloat ndarray2" where
  "init_tau_of heuristic X =
     (if heuristic
      then np_map2d (\<lambda>p. np_div (Fin 1) p) (init_phi heuristic X)
      else np_full (shape0 X) (shape1 X) (Fin (1 / 2)))"

definition initial_locals ::
  "('f, 'k, 'c, 's) arguments \<Rightarrow> npfloat ndarray2 \<Rightarrow> 'r \<Rightarrow> 'r locals" where
  "initial_locals a X r =
     \<lparr>d_hat = ds_init a, z_hat = None, phi = init_phi (init_tau a) X,
      tau = init_tau_of (init_tau a) X, rng = r\<rparr>"

text \<open>Lines 91 to 96: the call of \<open>learn_d_z\<close>.\<close>

definition maximization_call ::
  "('f, 'k, 'c, 's) arguments \<Rightarrow> npfloat ndarray2 \<Rightarrow> 'r locals \<Rightarrow> ('f, 'k, 'c, 'r) learn_call"
  where
  "maximization_call a X st =
     \<lparr>lc_X = X, lc_n_atoms = n_atoms a, lc_n_times_atom = n_times_atom a,
      lc_func_d = func_d a, lc_reg = reg a, lc_n_iter = n_iter_optim a,
      lc_random_state = rng st,
      lc_sample_weights = np_map2d (\<lambda>t. np_mul (Fin 2) t) (tau st),
      lc_ds_init = d_hat st,
      lc_solver_d_kwargs = solver_d_kwargs a, lc_solver_z_kwargs = solver_z_kwargs a,
      lc_verbose = verbose a, lc_solver_z = solver_z a, lc_n_jobs = n_jobs a,
      lc_callback = callback a\<rparr>"

text \<open>Lines 100 to 102: the call of \<open>estimate_phi_mh\<close>.\<close>

definition expectation_call ::
  "('f, 'k, 'c, 's) arguments \<Rightarrow> npfloat ndarray2 \<Rightarrow> npfloat ndarray2 \<Rightarrow> npfloat ndarray2 \<Rightarrow>
   'r \<Rightarrow> 'r estimate_call" where
  "expectation_call a X X_hat ph r =
     \<lparr>ec_X = X, ec_X_hat = X_hat, ec_alpha = alpha a, ec_phi = ph,
      ec_n_iter_mcmc = n_iter_mcmc a, ec_n_burnin_mcmc = n_burnin_mcmc a,
      ec_random_state = r, ec_return_loglk = True, ec_verbose = verbose a\<rparr>"

text \<open>
  One pass of the loop body (lines 91 to 105). An exception of a collaborator ends the run.
  The line printed when \<open>verbose > 0\<close> changes no variable and is left out.
\<close>

definition mcem_iteration ::
  "('f, 'k, 'c, 's, 'r) collaborators \<Rightarrow> ('f, 'k, 'c, 's) arguments \<Rightarrow> npfloat ndarray2 \<Rightarrow>
   'r locals \<Rightarrow> ('f, 'k, 'c, 'r) event list \<times> (error + 'r locals)" where
  "mcem_iteration env a X st =
     (let m = maximization_call a X st in
      case learn_d_z env m of
        Inl e \<Rightarrow> ([Maximization m], Inl e)
      | Inr ((pobj, durations, d, z), r1) \<Rightarrow>
          (case construct_X env z d of
             Inl e \<Rightarrow> ([Maximization m], Inl e)
           | Inr X_hat \<Rightarrow>
               (let c = expectation_call a X X_hat (phi st) r1 in
                case estimate_phi_mh env c of
                  Inl e \<Rightarrow> ([Maximization m, Expectation c], Inl e)
                | Inr ((phi', tau', loglk_mcmc), r2) \<Rightarrow>
                    ([Maximization m, Expectation c],
                     Inr \<lparr>d_hat = Some d, z_hat = Some z, phi = phi', tau = tau',
                          rng = r2\<rparr>))))"

text \<open>\<open>for ii in range(n_iter_global)\<close>: the body does not read \<open>ii\<close> but to print it.\<close>

fun mcem_loop ::
  "('f, 'k, 'c, 's, 'r) collaborators \<Rightarrow> ('f, 'k, 'c, 's) arguments \<Rightarrow> npfloat ndarray2 \<Rightarrow>
   nat list \<Rightarrow> 'r locals \<Rightarrow> ('f, 'k, 'c, 'r) event list \<times> (error + 'r locals)" where
  "mcem_loop env a X [] st = ([], Inr st)"
| "mcem_loop env a X (ii # iis) st =
     (case mcem_iteration env a X st of
        (evs, Inl e) \<Rightarrow> (evs, Inl e)
      | (evs, Inr st') \<Rightarrow>
          (case mcem_loop env a X iis st' of (evs', res) \<Rightarrow> (evs @ evs', res)))"

text \<open>\<open>range(n)\<close> for a Python integer: empty when \<open>n\<close> is zero or negative.\<close>

definition py_range :: "int \<Rightarrow> nat list" where
  "py_range n = [0..<nat n]"

text \<open>
  The function: the trace of collaborator calls, and either the exception or the triple
  returned on line 107. Reading \<open>z_hat\<close> there fails when no iteration has bound it.
  \<open>X\<close> is two-dimensional by its type, so that line 75 cannot fail.
\<close>

definition learn_d_z_weighted ::
  "('f, 'k, 'c, 's, 'r) collaborators \<Rightarrow> npfloat ndarray2 \<Rightarrow> ('f, 'k, 'c, 's) arguments \<Rightarrow>
   ('f, 'k, 'c, 'r) event list \<times>
   (error + (dictionary option \<times> activations \<times> npfloat ndarray2))" where
  "learn_d_z_weighted env X a =
     (case check_random_state env (random_state a) of
        Inl e \<Rightarrow> ([], Inl e)
      | Inr r \<Rightarrow>
          (case mcem_loop env a X (py_range (n_iter_global a)) (initial_locals a X r) of
             (evs, Inl e) \<Rightarrow> (evs, Inl e)
           | (evs, Inr st) \<Rightarrow>
               (case z_hat st of
                  None \<Rightarrow> (evs, Inl (UnboundLocalError ''z_hat''))
                | Some z \<Rightarrow> (evs, Inr (d_hat st, z, tau st)))))"

section \<open>The gradient contraction of \<open>benchmarks/multivariate_convolve.py\<close>\<close>

text \<open>
  The tensors of the benchmark hold finite floats, taken as real numbers. A
  three-dimensional array carries its shape beside its entries.
\<close>

record 'a ndarray3 =
  dim0 :: nat
  dim1 :: nat
  dim2 :: nat
  entries :: "'a list list list"

definition wf_ndarray3 :: "'a ndarray3 \<Rightarrow> bool" where
  "wf_ndarray3 T \<longleftrightarrow>
     length (entries T) = dim0 T \<and>
     list_all (\<lambda>M. length M = dim1 T \<and> list_all (\<lambda>r. length r = dim2 T) M) (entries T)"

definition np_zeros3 :: "nat \<Rightarrow> nat \<Rightarrow> nat \<Rightarrow> real ndarray3" where
  "np_zeros3 a b c =
     \<lparr>dim0 = a, dim1 = b, dim2 = c, entries = replicate a (replicate b (replicate c 0))\<rparr>"

text \<open>A \<open>for\<close> loop over a range, threading the loop's variables; an exception ends it.\<close>

fun for_loop :: "nat list \<Rightarrow> (nat \<Rightarrow> 's \<Rightarrow> error + 's) \<Rightarrow> 's \<Rightarrow> error + 's" where
  "for_loop [] body s = Inr s"
| "for_loop (i # is) body s =
     (case body i s of Inl e \<Rightarrow> Inl e | Inr s' \<Rightarrow> for_loop is body s')"

text \<open>\<open>T[i, j]\<close> on a three-dimensional array, for non-negative indices.\<close>

definition index2 :: "'a ndarray3 \<Rightarrow> nat \<Rightarrow> nat \<Rightarrow> error + 'a list" where
  "index2 T i j = (if i < dim0 T \<and> j < dim1 T then Inr (entries T ! i ! j) else Inl IndexError)"

text \<open>The stores \<open>G[i, j] = r\<close> and \<open>G[i, j, t] = x\<close>, at indices within the shape.\<close>

definition set_row :: "'a ndarray3 \<Rightarrow> nat \<Rightarrow> nat \<Rightarrow> 'a list \<Rightarrow> 'a ndarray3" where
  "set_row G i j r = G\<lparr>entries := (entries G)[i := (entries G ! i)[j := r]]\<rparr>"


text \<open>
  \<open>g += c\<close> on one-dimensional arrays: \<open>c\<close> must have the length of \<open>g\<close>, or length one
  and is then broadcast.
\<close>

definition np_iadd :: "real list \<Rightarrow> real list \<Rightarrow> error + real list" where
  "np_iadd g c =
     (if length c = length g then Inr (map2 (+) g c)
      else if length c = 1 then Inr (map (\<lambda>x. x + hd c) g)
      else Inl ValueError)"


text \<open>
  \<open>numpy.convolve(a, v, mode='valid')\<close>: the longer argument comes first, an empty one is
  refused, and the result is the correlation of \<open>a\<close> with \<open>v\<close> reversed, at the offsets
  where \<open>v\<close> lies within \<open>a\<close>.
\<close>

definition np_correlate_valid :: "real list \<Rightarrow> real list \<Rightarrow> real list" where
  "np_correlate_valid a w =
     map (\<lambda>k. sum_list (map2 (*) (take (length w) (drop k a)) w))
       [0..<length a - length w + 1]"

definition np_convolve_valid :: "real list \<Rightarrow> real list \<Rightarrow> error + real list" where
  "np_convolve_valid a v =
     (let (a', v') = (if length a < length v then (v, a) else (a, v))
      in if a' = [] \<or> v' = [] then Inl ValueError
         else Inr (np_correlate_valid a' (rev v')))"




text \<open>Lines 32 to 44.\<close>

definition numpy_convolve :: "real ndarray3 \<Rightarrow> real ndarray3 \<Rightarrow> error + real ndarray3" where
  "numpy_convolve ZtZ D =
     (let n_atoms = dim0 D; n_channels = dim1 D in
      for_loop [0..<n_atoms] (\<lambda>k0.
        for_loop [0..<n_atoms] (\<lambda>k1.
          for_loop [0..<n_channels] (\<lambda>p G.
            case index2 ZtZ k0 k1 of
              Inl e \<Rightarrow> Inl e
            | Inr a \<Rightarrow>
                (case np_convolve_valid a (entries D ! k1 ! p) of
                   Inl e \<Rightarrow> Inl e
                 | Inr c \<Rightarrow>
                     (case np_iadd (entries G ! k0 ! p) c of
                        Inl e \<Rightarrow> Inl e
                      | Inr r \<Rightarrow> Inr (set_row G k0 p r))))))
        (np_zeros3 (dim0 D) (dim1 D) (dim2 D)))"

















section \<open>The gradient test: \<open>test_gradients\<close>\<close>





















section \<open>Specification-side notions for the MCEM loop\<close>






section \<open>Concrete inputs\<close>

text \<open>
  Stand-ins for the collaborators, for evaluating the loop on concrete inputs: the learning
  loop returns a fixed dictionary and activation, the sampler returns \<open>phi\<close> unchanged and
  \<open>tau = 1 / phi\<close>, and each advances the generator.
\<close>

definition stub_collaborators :: "(unit, unit, unit, nat, nat) collaborators" where
  "stub_collaborators =
     \<lparr>check_random_state = (\<lambda>s. Inr s),
      learn_d_z = (\<lambda>m. Inr (([], [], [[Fin 1]], [[[Fin 1]]]), Suc (lc_random_state m))),
      construct_X = (\<lambda>z d. Inr (np_full 1 2 (Fin 0))),
      estimate_phi_mh = (\<lambda>c.
        Inr ((ec_phi c, np_map2d (\<lambda>p. np_div (Fin 1) p) (ec_phi c), []),
             Suc (ec_random_state c)))\<rparr>"


definition stub_arguments :: "(unit, unit, unit, nat) arguments" where
  "stub_arguments =
     \<lparr>n_atoms = 1, n_times_atom = 1, func_d = (), reg = 1 / 10, alpha = 19 / 10,
      n_iter_global = 1, init_tau = False, n_iter_optim = 10, n_iter_mcmc = 10,
      n_burnin_mcmc = 0, random_state = 0, n_jobs = 1, solver_z = ''l-bfgs'',
      solver_d_kwargs = (), solver_z_kwargs = (), ds_init = None, verbose = 0,
      callback = ()\<rparr>"

definition stub_X :: "npfloat ndarray2" where
  "stub_X = \<lparr>shape0 = 1, shape1 = 2, cells = [[Fin 3, Fin 3]]\<rparr>"


section \<open>Specification-side notions for the gradient contraction\<close>

text \<open>The array of a given shape whose entry at \<open>(k, p, t)\<close> is \<open>f k p t\<close>.\<close>

definition tabulate3 :: "nat \<Rightarrow> nat \<Rightarrow> nat \<Rightarrow> (nat \<Rightarrow> nat \<Rightarrow> nat \<Rightarrow> real) \<Rightarrow> real ndarray3" where
  "tabulate3 a b c f =
     \<lparr>dim0 = a, dim1 = b, dim2 = c,
      entries = map (\<lambda>k. map (\<lambda>p. map (\<lambda>t. f k p t) [0..<c]) [0..<b]) [0..<a]\<rparr>"

text \<open>
  The contraction the six functions compute: entry \<open>(k0, p, t)\<close> sums, over the atoms
  \<open>k1\<close> and the lags \<open>j\<close>, \<open>ZtZ[k0, k1, t + j] * D[k1, p, n - 1 - j]\<close>, where \<open>n\<close> is
  the length of an atom.
\<close>

definition contraction_entry :: "real ndarray3 \<Rightarrow> real ndarray3 \<Rightarrow> nat \<Rightarrow> nat \<Rightarrow> nat \<Rightarrow> real" where
  "contraction_entry ZtZ D k0 p t =
     (\<Sum>k1<dim0 D. \<Sum>j<dim2 D.
        entries ZtZ ! k0 ! k1 ! (t + j) * entries D ! k1 ! p ! (dim2 D - 1 - j))"

definition contraction :: "real ndarray3 \<Rightarrow> real ndarray3 \<Rightarrow> real ndarray3" where
  "contraction ZtZ D = tabulate3 (dim0 D) (dim1 D) (dim2 D) (contraction_entry ZtZ D)"

text \<open>
  The shapes the functions are documented for: \<open>ZtZ\<close> of shape
  \<open>(n_atoms, n_atoms, 2 * n_times_atom - 1)\<close> and \<open>D\<close> of shape
  \<open>(n_atoms, n_channels, n_times_atom)\<close>, with atoms of at least one sample.
\<close>

definition contraction_shapes :: "real ndarray3 \<Rightarrow> real ndarray3 \<Rightarrow> bool" where
  "contraction_shapes ZtZ D \<longleftrightarrow>
     wf_ndarray3 ZtZ \<and> wf_ndarray3 D \<and> dim0 ZtZ = dim0 D \<and> dim1 ZtZ = dim0 D \<and>
     0 < dim2 D \<and> dim2 ZtZ = 2 * dim2 D - 1"




definition short_ZtZ :: "real ndarray3" where
  "short_ZtZ = \<lparr>dim0 = 2, dim1 = 2, dim2 = 1, entries = [[[1], [2]], [[3], [4]]]\<rparr>"

definition short_D :: "real ndarray3" where
  "short_D = \<lparr>dim0 = 2, dim1 = 2, dim2 = 1, entries = [[[5], [6]], [[7], [8]]]\<rparr>"



section \<open>Properties of the MCEM loop\<close>




lemma py_range_nonpos: "n \<le> 0 \<Longrightarrow> py_range n = []"
  by (simp add: py_range_def)





















section \<open>Properties of the gradient contraction\<close>

lemma for_loop_append:
  "for_loop (xs @ ys) body s =
     (case for_loop xs body s of Inl e \<Rightarrow> Inl e | Inr s' \<Rightarrow> for_loop ys body s')"
  by (induction xs arbitrary: s) (auto split: sum.splits)

lemma tabulate3_cong:
  assumes "\<And>k p t. k < a \<Longrightarrow> p < b \<Longrightarrow> t < c \<Longrightarrow> f k p t = g k p t"
  shows "tabulate3 a b c f = tabulate3 a b c g"
  using assms by (simp add: tabulate3_def)

lemma np_zeros3_tabulate: "np_zeros3 a b c = tabulate3 a b c (\<lambda>k p t. 0)"
  by (simp add: np_zeros3_def tabulate3_def map_replicate_const)

lemma tabulate3_row:
  "k < a \<Longrightarrow> p < b \<Longrightarrow> entries (tabulate3 a b c f) ! k ! p = map (f k p) [0..<c]"
  by (simp add: tabulate3_def)

lemma tabulate3_dims [simp]:
  "dim0 (tabulate3 a b c f) = a" "dim1 (tabulate3 a b c f) = b" "dim2 (tabulate3 a b c f) = c"
  by (simp_all add: tabulate3_def)

lemma for_loop_accumulate:
  assumes "\<And>i f. i < m \<Longrightarrow>
     body i (tabulate3 a b c f) = Inr (tabulate3 a b c (\<lambda>k p t. f k p t + g i k p t))"
  shows "for_loop [0..<m] body (tabulate3 a b c f) =
     Inr (tabulate3 a b c (\<lambda>k p t. f k p t + (\<Sum>i<m. g i k p t)))"
  using assms
proof (induction m)
  case 0
  then show ?case by simp
next
  case (Suc m)
  have "for_loop [0..<m] body (tabulate3 a b c f) =
     Inr (tabulate3 a b c (\<lambda>k p t. f k p t + (\<Sum>i<m. g i k p t)))"
    using Suc.IH Suc.prems by simp
  then show ?case
    using Suc.prems [of m "\<lambda>k p t. f k p t + (\<Sum>i<m. g i k p t)"]
    by (simp add: for_loop_append add.assoc)
qed

lemma set_row_tabulate3:
  assumes "k0 < a" and "p0 < b" and "length r = c"
  shows "set_row (tabulate3 a b c f) k0 p0 r =
     tabulate3 a b c (\<lambda>k p t. if k = k0 \<and> p = p0 then r ! t else f k p t)"
proof -
  have "(entries (tabulate3 a b c f))[k0 := (entries (tabulate3 a b c f) ! k0)[p0 := r]] =
        entries (tabulate3 a b c (\<lambda>k p t. if k = k0 \<and> p = p0 then r ! t else f k p t))"
    (is "?L = ?R")
  proof (rule nth_equalityI)
    show "length ?L = length ?R" by (simp add: tabulate3_def)
  next
    fix k assume "k < length ?L"
    then have k: "k < a" by (simp add: tabulate3_def)
    show "?L ! k = ?R ! k"
    proof (cases "k = k0")
      case False
      with k show ?thesis by (simp add: tabulate3_def)
    next
      case True
      have "(entries (tabulate3 a b c f) ! k0)[p0 := r] = ?R ! k0"
      proof (rule nth_equalityI)
        show "length ((entries (tabulate3 a b c f) ! k0)[p0 := r]) = length (?R ! k0)"
          using assms(1) by (simp add: tabulate3_def)
      next
        fix p assume "p < length ((entries (tabulate3 a b c f) ! k0)[p0 := r])"
        then have p: "p < b" using assms(1) by (simp add: tabulate3_def)
        show "(entries (tabulate3 a b c f) ! k0)[p0 := r] ! p = ?R ! k0 ! p"
        proof (cases "p = p0")
          case True
          with assms show ?thesis
            by (auto simp: tabulate3_def intro!: nth_equalityI)
        next
          case False
          with p assms(1) show ?thesis by (simp add: tabulate3_def)
        qed
      qed
      with True k show ?thesis by (simp add: tabulate3_def)
    qed
  qed
  then show ?thesis
    by (simp add: set_row_def tabulate3_def)
qed

lemma add_row_tabulate3:
  assumes "k0 < a" and "p0 < b" and "length cs = c"
  shows "np_iadd (entries (tabulate3 a b c f) ! k0 ! p0) cs = Inr r \<Longrightarrow>
     set_row (tabulate3 a b c f) k0 p0 r =
     tabulate3 a b c (\<lambda>k p t. f k p t + (if k = k0 \<and> p = p0 then cs ! t else 0))"
proof -
  assume h: "np_iadd (entries (tabulate3 a b c f) ! k0 ! p0) cs = Inr r"
  have row: "entries (tabulate3 a b c f) ! k0 ! p0 = map (f k0 p0) [0..<c]"
    using assms by (simp add: tabulate3_row)
  from h have r: "r = map2 (+) (map (f k0 p0) [0..<c]) cs"
    using assms(3) by (simp add: np_iadd_def row)
  then have len: "length r = c" using assms(3) by simp
  have nth: "\<And>t. t < c \<Longrightarrow> r ! t = f k0 p0 t + cs ! t"
    using assms(3) by (simp add: r)
  show ?thesis
    unfolding set_row_tabulate3 [OF assms(1,2) len]
    by (rule tabulate3_cong) (simp add: nth)
qed


lemma dot_sum:
  "length xs = length ys \<Longrightarrow>
     sum_list (map2 (*) xs ys) = (\<Sum>j<length ys. xs ! j * (ys ! j :: real))"
  by (simp add: sum_list_sum_nth atLeast0LessThan)

lemma np_convolve_valid_window:
  assumes "length a = 2 * n - 1" and "length d = n" and "0 < n"
  shows "np_convolve_valid a d =
     Inr (map (\<lambda>t. \<Sum>j<n. a ! (t + j) * d ! (n - 1 - j)) [0..<n])"
proof -
  have la: "length a = n + (n - 1)"
    using assms by simp
  have "0 < length a" "0 < length d"
    using la assms(2,3) by simp_all
  then have ne: "a \<noteq> []" "d \<noteq> []"
    by simp_all
  have sw: "\<not> length a < length d"
    using la assms(2) by simp
  have len: "length a - length (rev d) + 1 = n"
    using assms by simp
  have "np_correlate_valid a (rev d) =
      map (\<lambda>t. \<Sum>j<n. a ! (t + j) * d ! (n - 1 - j)) [0..<n]"
    unfolding np_correlate_valid_def len
  proof (rule map_cong [OF refl])
    fix t assume "t \<in> set [0..<n]"
    then have t: "t + n \<le> length a" using assms by simp
    have "sum_list (map2 (*) (take (length (rev d)) (drop t a)) (rev d)) =
        (\<Sum>j<n. take n (drop t a) ! j * rev d ! j)"
      using dot_sum [of "take n (drop t a)" "rev d"] t assms(2) by simp
    also have "\<dots> = (\<Sum>j<n. a ! (t + j) * d ! (n - 1 - j))"
      using t assms(2) by (intro sum.cong refl) (simp add: rev_nth)
    finally show "sum_list (map2 (*) (take (length (rev d)) (drop t a)) (rev d)) =
        (\<Sum>j<n. a ! (t + j) * d ! (n - 1 - j))" .
  qed
  then show ?thesis
    using sw ne by (simp add: np_convolve_valid_def)
qed

lemma pick_atom_channel:
  assumes "k < (a::nat)" and "q < (c::nat)"
  shows "(\<Sum>k0<a. \<Sum>k1<(b::nat). \<Sum>p<c. if k = k0 \<and> q = p then h k0 k1 p else (0::real)) =
     (\<Sum>k1<b. h k k1 q)"
proof -
  have "(\<Sum>p<c. if k = k0 \<and> q = p then h k0 k1 p else 0) =
      (if k = k0 then h k0 k1 q else 0)" for k0 k1
    using assms(2) by (cases "k = k0") (simp_all add: sum.delta')
  then have "(\<Sum>k0<a. \<Sum>k1<b. \<Sum>p<c. if k = k0 \<and> q = p then h k0 k1 p else 0) =
      (\<Sum>k0<a. \<Sum>k1<b. if k = k0 then h k0 k1 q else 0)"
    by simp
  also have "\<dots> = (\<Sum>k0<a. if k = k0 then (\<Sum>k1<b. h k0 k1 q) else 0)"
    by (intro sum.cong refl) simp
  also have "\<dots> = (\<Sum>k1<b. h k k1 q)"
    using assms(1) by (simp add: sum.delta')
  finally show ?thesis .
qed

text \<open>Three nested loops, each pass adding a row to one (atom, channel) pair.\<close>

lemma three_loops:
  assumes step: "\<And>k0 k1 p f. k0 < a \<Longrightarrow> k1 < b \<Longrightarrow> p < c \<Longrightarrow>
     body k0 k1 p (tabulate3 a c n f) =
       Inr (tabulate3 a c n (\<lambda>k q t. f k q t + (if k = k0 \<and> q = p then h k0 k1 p t else 0)))"
  shows "for_loop [0..<a] (\<lambda>k0. for_loop [0..<b] (\<lambda>k1. for_loop [0..<c] (body k0 k1)))
       (np_zeros3 a c n) =
     Inr (tabulate3 a c n (\<lambda>k q t. \<Sum>k1<b. h k k1 q t))"
proof -
  have inner: "\<And>k0 k1 f. k0 < a \<Longrightarrow> k1 < b \<Longrightarrow>
     for_loop [0..<c] (body k0 k1) (tabulate3 a c n f) =
       Inr (tabulate3 a c n (\<lambda>k q t. f k q t +
          (\<Sum>p<c. if k = k0 \<and> q = p then h k0 k1 p t else 0)))"
    by (rule for_loop_accumulate) (simp add: step)
  have middle: "\<And>k0 f. k0 < a \<Longrightarrow>
     for_loop [0..<b] (\<lambda>k1. for_loop [0..<c] (body k0 k1)) (tabulate3 a c n f) =
       Inr (tabulate3 a c n (\<lambda>k q t. f k q t +
          (\<Sum>k1<b. \<Sum>p<c. if k = k0 \<and> q = p then h k0 k1 p t else 0)))"
    by (rule for_loop_accumulate) (simp add: inner)
  have outer:
    "for_loop [0..<a] (\<lambda>k0. for_loop [0..<b] (\<lambda>k1. for_loop [0..<c] (body k0 k1)))
       (tabulate3 a c n (\<lambda>k q t. 0)) =
     Inr (tabulate3 a c n (\<lambda>k q t. 0 +
          (\<Sum>k0<a. \<Sum>k1<b. \<Sum>p<c. if k = k0 \<and> q = p then h k0 k1 p t else 0)))"
    by (rule for_loop_accumulate) (simp add: middle)
  have "tabulate3 a c n (\<lambda>k q t. 0 +
          (\<Sum>k0<a. \<Sum>k1<b. \<Sum>p<c. if k = k0 \<and> q = p then h k0 k1 p t else 0)) =
        tabulate3 a c n (\<lambda>k q t. \<Sum>k1<b. h k k1 q t)"
    by (rule tabulate3_cong) (simp add: pick_atom_channel)
  with outer show ?thesis
    by (simp add: np_zeros3_tabulate)
qed

lemma wf3_row_length:
  assumes "wf_ndarray3 T" and "i < dim0 T" and "j < dim1 T"
  shows "length (entries T ! i ! j) = dim2 T"
  using assms by (simp add: wf_ndarray3_def list_all_length)


text \<open>The row that one (atom, atom, channel) triple contributes.\<close>

lemma row_step:
  assumes "k0 < a" and "p < c"
  shows "(case np_iadd (entries (tabulate3 a c n f) ! k0 ! p) (map (h k0 k1 p) [0..<n]) of
            Inl e \<Rightarrow> Inl e
          | Inr r \<Rightarrow> Inr (set_row (tabulate3 a c n f) k0 p r)) =
         Inr (tabulate3 a c n
           (\<lambda>k q t. f k q t + (if k = k0 \<and> q = p then h k0 k1 p t else 0)))"
proof -
  have ia: "np_iadd (entries (tabulate3 a c n f) ! k0 ! p) (map (h k0 k1 p) [0..<n]) =
      Inr (map2 (+) (map (f k0 p) [0..<n]) (map (h k0 k1 p) [0..<n]))"
    using assms by (simp add: np_iadd_def tabulate3_row)
  have "set_row (tabulate3 a c n f) k0 p
        (map2 (+) (map (f k0 p) [0..<n]) (map (h k0 k1 p) [0..<n])) =
      tabulate3 a c n (\<lambda>k q t. f k q t +
        (if k = k0 \<and> q = p then map (h k0 k1 p) [0..<n] ! t else 0))"
    using add_row_tabulate3 [OF assms _ ia] by simp
  also have "\<dots> = tabulate3 a c n
       (\<lambda>k q t. f k q t + (if k = k0 \<and> q = p then h k0 k1 p t else 0))"
    by (rule tabulate3_cong) simp
  finally show ?thesis
    by (simp only: ia sum.case)
qed

lemma numpy_convolve_contraction:
  assumes "contraction_shapes ZtZ D"
  shows "numpy_convolve ZtZ D = Inr (contraction ZtZ D)"
proof -
  let ?a = "dim0 D" and ?c = "dim1 D" and ?n = "dim2 D"
  define h where "h = (\<lambda>k0 k1 p t. \<Sum>j<?n.
      entries ZtZ ! k0 ! k1 ! (t + j) * entries D ! k1 ! p ! (?n - 1 - j))"
  let ?body = "\<lambda>k0 k1 p G.
            case index2 ZtZ k0 k1 of
              Inl e \<Rightarrow> Inl e
            | Inr a \<Rightarrow>
                (case np_convolve_valid a (entries D ! k1 ! p) of
                   Inl e \<Rightarrow> Inl e
                 | Inr c \<Rightarrow>
                     (case np_iadd (entries G ! k0 ! p) c of
                        Inl e \<Rightarrow> Inl e
                      | Inr r \<Rightarrow> Inr (set_row G k0 p r)))"
  from assms have wz: "wf_ndarray3 ZtZ" and wd: "wf_ndarray3 D"
    and d0: "dim0 ZtZ = ?a" and d1: "dim1 ZtZ = ?a" and n: "0 < ?n"
    and d2: "dim2 ZtZ = 2 * ?n - 1"
    by (simp_all add: contraction_shapes_def)
  have step: "?body k0 k1 p (tabulate3 ?a ?c ?n f) =
       Inr (tabulate3 ?a ?c ?n
         (\<lambda>k q t. f k q t + (if k = k0 \<and> q = p then h k0 k1 p t else 0)))"
    if "k0 < ?a" "k1 < ?a" "p < ?c" for k0 k1 p f
  proof -
    have ix: "index2 ZtZ k0 k1 = Inr (entries ZtZ ! k0 ! k1)"
      using that d0 d1 by (simp add: index2_def)
    have la: "length (entries ZtZ ! k0 ! k1) = 2 * ?n - 1"
      using wf3_row_length [OF wz] that d0 d1 d2 by simp
    have ld: "length (entries D ! k1 ! p) = ?n"
      using wf3_row_length [OF wd] that by simp
    have cv: "np_convolve_valid (entries ZtZ ! k0 ! k1) (entries D ! k1 ! p) =
        Inr (map (h k0 k1 p) [0..<?n])"
      using np_convolve_valid_window [OF la ld n] by (simp add: h_def)
    show ?thesis
      using row_step [OF that(1,3), of ?n f h k1] by (simp only: ix cv sum.case)
  qed
  have "for_loop [0..<?a] (\<lambda>k0. for_loop [0..<?a] (\<lambda>k1. for_loop [0..<?c] (?body k0 k1)))
       (np_zeros3 ?a ?c ?n) =
     Inr (tabulate3 ?a ?c ?n (\<lambda>k q t. \<Sum>k1<?a. h k k1 q t))"
    by (rule three_loops) (rule step)
  then show ?thesis
    by (simp add: numpy_convolve_def Let_def contraction_def contraction_entry_def [abs_def] h_def)
qed
























lemma tabulate3_wf: "wf_ndarray3 (tabulate3 a b c f)"
  by (simp add: wf_ndarray3_def tabulate3_def list_all_iff)

lemma short_numpy_convolve:
  "numpy_convolve short_ZtZ short_D =
     Inr \<lparr>dim0 = 2, dim1 = 2, dim2 = 1, entries = [[[19], [22]], [[43], [50]]]\<rparr>"
  by code_simp

section \<open>Properties of the gradient test\<close>





section \<open>Claims about \<open>learn_d_z_weighted\<close>\<close>










text \<open>
  Claim C9. Once the random state is accepted, a call with \<open>n_iter_global\<close> zero (or
  negative) runs no iteration and ends in the unbound-variable error for \<open>z_hat\<close> at the
  return statement; a call that returns normally had \<open>n_iter_global >= 1\<close>.
\<close>

theorem no_iteration_unbound_z_hat:
  "(check_random_state env (random_state a) = Inr r \<and> n_iter_global a \<le> 0 \<longrightarrow>
      learn_d_z_weighted env X a = ([], Inl (UnboundLocalError ''z_hat''))) \<and>
   (learn_d_z_weighted env X a = (tr, Inr res) \<longrightarrow> 1 \<le> n_iter_global a)"
proof (intro conjI impI)
  assume "check_random_state env (random_state a) = Inr r \<and> n_iter_global a \<le> 0"
  then show "learn_d_z_weighted env X a = ([], Inl (UnboundLocalError ''z_hat''))"
    by (simp add: learn_d_z_weighted_def py_range_nonpos initial_locals_def)
next
  assume ret: "learn_d_z_weighted env X a = (tr, Inr res)"
  show "1 \<le> n_iter_global a"
  proof (rule ccontr)
    assume "\<not> 1 \<le> n_iter_global a"
    then have "py_range (n_iter_global a) = []"
      by (simp add: py_range_nonpos)
    with ret show False
      by (simp add: learn_d_z_weighted_def initial_locals_def split: sum.splits)
  qed
qed

theorem no_iteration_unbound_z_hat_witness:
  "check_random_state stub_collaborators
     (random_state (stub_arguments\<lparr>n_iter_global := 0\<rparr>)) = Inr 0 \<and>
   n_iter_global (stub_arguments\<lparr>n_iter_global := 0\<rparr>) \<le> 0 \<and>
   learn_d_z_weighted stub_collaborators stub_X (stub_arguments\<lparr>n_iter_global := 0\<rparr>) =
     ([], Inl (UnboundLocalError ''z_hat''))"
  using no_iteration_unbound_z_hat
    [of stub_collaborators "stub_arguments\<lparr>n_iter_global := 0\<rparr>" 0 stub_X]
  by (simp add: stub_collaborators_def stub_arguments_def)



section \<open>Claims about the gradient contraction\<close>




text \<open>
  Claim C8. For atoms of a single sample, \<open>ZtZ\<close> of shape \<open>(n_atoms, n_atoms, 1)\<close> and
  \<open>D\<close> of shape \<open>(n_atoms, n_channels, 1)\<close>, \<open>numpy_convolve\<close> returns the array
  \<open>G\<close> of the shape of \<open>D\<close> with \<open>G[k0, p, 0]\<close> the sum over \<open>k1\<close> of
  \<open>ZtZ[k0, k1, 0] * D[k1, p, 0]\<close>.
\<close>

theorem single_sample_atoms_scale:
  assumes "wf_ndarray3 ZtZ" and "wf_ndarray3 D"
    and "dim0 ZtZ = dim0 D" and "dim1 ZtZ = dim0 D"
    and "dim2 D = 1" and "dim2 ZtZ = 1"
  shows "\<exists>G. numpy_convolve ZtZ D = Inr G \<and> wf_ndarray3 G \<and>
           dim0 G = dim0 D \<and> dim1 G = dim1 D \<and> dim2 G = 1 \<and>
           (\<forall>k0<dim0 D. \<forall>p<dim1 D.
              entries G ! k0 ! p =
                [\<Sum>k1<dim0 D. entries ZtZ ! k0 ! k1 ! 0 * entries D ! k1 ! p ! 0])"
proof -
  have sh: "contraction_shapes ZtZ D"
    using assms by (simp add: contraction_shapes_def)
  have row: "entries (contraction ZtZ D) ! k0 ! p =
      [\<Sum>k1<dim0 D. entries ZtZ ! k0 ! k1 ! 0 * entries D ! k1 ! p ! 0]"
    if "k0 < dim0 D" "p < dim1 D" for k0 p
    using that assms(5)
    by (simp add: contraction_def tabulate3_row contraction_entry_def)
  show ?thesis
    using numpy_convolve_contraction [OF sh] row assms(5)
    by (simp add: contraction_def tabulate3_wf)
qed

theorem single_sample_atoms_scale_witness:
  "wf_ndarray3 short_ZtZ \<and> wf_ndarray3 short_D \<and> dim0 short_ZtZ = dim0 short_D \<and>
   dim1 short_ZtZ = dim0 short_D \<and> dim2 short_D = 1 \<and> dim2 short_ZtZ = 1 \<and>
   (\<exists>G. numpy_convolve short_ZtZ short_D = Inr G \<and> wf_ndarray3 G \<and>
      dim0 G = dim0 short_D \<and> dim1 G = dim1 short_D \<and> dim2 G = 1 \<and>
      entries G ! 0 ! 0 = [19] \<and> entries G ! 1 ! 1 = [50] \<and>
      entries G ! 1 ! 1 =
        [\<Sum>k1<dim0 short_D. entries short_ZtZ ! 1 ! k1 ! 0 * entries short_D ! k1 ! 1 ! 0])"
proof -
  have h: "wf_ndarray3 short_ZtZ" "wf_ndarray3 short_D" "dim0 short_ZtZ = dim0 short_D"
    "dim1 short_ZtZ = dim0 short_D" "dim2 short_D = 1" "dim2 short_ZtZ = 1"
    by (simp_all add: short_ZtZ_def short_D_def wf_ndarray3_def)
  have d: "(1::nat) < dim0 short_D" "(1::nat) < dim1 short_D"
    by (simp_all add: short_D_def)
  from single_sample_atoms_scale [OF h] obtain G where
    g: "numpy_convolve short_ZtZ short_D = Inr G" "wf_ndarray3 G"
      "dim0 G = dim0 short_D" "dim1 G = dim1 short_D" "dim2 G = 1"
      "\<forall>k0<dim0 short_D. \<forall>p<dim1 short_D. entries G ! k0 ! p =
         [\<Sum>k1<dim0 short_D. entries short_ZtZ ! k0 ! k1 ! 0 * entries short_D ! k1 ! p ! 0]"
    by blast
  have e: "entries G ! 1 ! 1 =
      [\<Sum>k1<dim0 short_D. entries short_ZtZ ! 1 ! k1 ! 0 * entries short_D ! k1 ! 1 ! 0]"
    using g(6) d by blast
  have v: "entries G ! 0 ! 0 = [19]" "entries G ! 1 ! 1 = [50]"
    using g(1) short_numpy_convolve by auto
  show ?thesis
    using h g(1-5) e v by blast
qed

section \<open>Claims about the gradient test\<close>




end
